theory Spec2Isabelle
  imports Main
begin

section \<open>The GPIO helper of boneio (src/boneio/helper/gpio.py)\<close>

text \<open>
  The module is a thin layer over three external collaborators: the \<^verbatim>\<open>config-pin\<close>
  program started through \<^verbatim>\<open>subprocess.run\<close>, the \<^verbatim>\<open>Adafruit_BBIO.GPIO\<close> driver and
  \<^verbatim>\<open>asyncio\<close>. None of them is part of the module, so each is a field of an environment
  record \<open>world\<close>: a function from the history of the external calls made so far (and the
  arguments of the call) to what the collaborator answers. Every external call is
  appended to that history, which is threaded through the functions of the module, so
  that the order of the calls and the calls that were never made can be stated.
  A Python exception is a value: a function returns \<open>(error + 'a) \<times> event list\<close>.
  The \<^verbatim>\<open>_LOGGER.debug\<close> line of \<^verbatim>\<open>configure_pin\<close> has no effect on results and is left out.
\<close>

subsection \<open>Values and constants\<close>

text \<open>
  The values found in the keyword dictionary of a unit: the mode of a pin is a
  string, its bounce time a number. Python does not check them, so the dictionary holds
  either under any key.
\<close>

datatype pyval = PStr string | PInt int

text \<open>
  Modelled from the spec: \<^verbatim>\<open>Gpio_States\<close> and \<^verbatim>\<open>LOW\<close> of \<^verbatim>\<open>boneio.const\<close>, a module
  that is not among the sources. The spec gives the active level as the enumeration
  HIGH, LOW. The two levels are the constants of the driver, on which Python's
  \<^verbatim>\<open>is\<close> agrees with equality.
\<close>

datatype Gpio_States = HIGH | LOW

text \<open>
  Modelled from the spec: \<^verbatim>\<open>Gpio_Edges\<close> and \<^verbatim>\<open>FALLING\<close> of \<^verbatim>\<open>boneio.const\<close>, not among
  the sources. The spec gives the edge kind as the enumeration RISING, FALLING, BOTH.
\<close>

datatype Gpio_Edges = RISING | FALLING | BOTH

text \<open>
  Modelled from the spec: the constants \<^verbatim>\<open>GPIO\<close> (imported as \<^verbatim>\<open>GPIO_STR\<close>) and
  \<^verbatim>\<open>GPIO_MODE\<close> of \<^verbatim>\<open>boneio.const\<close>, not among the sources. The spec names the key of the
  electrical mode \<^verbatim>\<open>mode\<close> and its default \<^verbatim>\<open>GPIO\<close>. The third constant of that module,
  \<^verbatim>\<open>CONFIG_PIN\<close>, is the path of the external program; the spec does not give it, and it
  is a field of the environment below.
\<close>

definition GPIO_STR :: string where
  "GPIO_STR = ''GPIO''"

definition GPIO_MODE :: string where
  "GPIO_MODE = ''mode''"

text \<open>The direction and pull constants of \<^verbatim>\<open>Adafruit_BBIO.GPIO\<close>.\<close>

datatype direction = IN | OUT

datatype pud = PUD_OFF | PUD_DOWN | PUD_UP

text \<open>A callable and an event loop are opaque objects, told apart by a handle.\<close>

datatype callable = Callable nat

datatype event_loop = EventLoop nat

subsection \<open>Exceptions\<close>

text \<open>
  The exceptions the external collaborators raise. A constructor stands for the Python
  class and its subclasses, which is what an \<^verbatim>\<open>except\<close> clause matches; the string is
  the message. \<open>TimeoutExpired\<close> carries the command and the timeout, as
  \<^verbatim>\<open>subprocess.TimeoutExpired\<close> does.
\<close>

datatype py_exception =
    ValueError string
  | SystemError string
  | RuntimeError string
  | TypeError string
  | OSError string
  | TimeoutExpired "pyval list" int

text \<open>
  Modelled from the spec: \<^verbatim>\<open>GPIOInputException\<close> of \<^verbatim>\<open>boneio.helper.exceptions\<close>, not
  among the sources; the spec describes a typed error that wraps the underlying cause.
  \<open>Raised e\<close> is an exception of a collaborator that leaves the module as it is.
\<close>

datatype error = Raised py_exception | GPIOInputException py_exception

subsection \<open>The environment\<close>

datatype event =
    SubprocessRun "pyval list" int
  | GpioSetup string direction pud
  | GpioOutput string pyval
  | GpioInput string
  | AddEventDetect string Gpio_Edges callable int

record world =
  CONFIG_PIN :: string
  subprocess_run :: "event list \<Rightarrow> pyval list \<Rightarrow> int \<Rightarrow> py_exception + int"
  gpio_setup :: "event list \<Rightarrow> string \<Rightarrow> direction \<Rightarrow> pud \<Rightarrow> py_exception option"
  gpio_output :: "event list \<Rightarrow> string \<Rightarrow> pyval \<Rightarrow> py_exception option"
  gpio_input :: "event list \<Rightarrow> string \<Rightarrow> py_exception + Gpio_States"
  gpio_add_event_detect ::
    "event list \<Rightarrow> string \<Rightarrow> Gpio_Edges \<Rightarrow> callable \<Rightarrow> int \<Rightarrow> py_exception option"
  running_loop :: "event list \<Rightarrow> event_loop option"

text \<open>
  \<open>subprocess_run w h args t\<close> is what \<^verbatim>\<open>subprocess.run(args, timeout=t)\<close> does after the
  calls \<open>h\<close>: it returns the exit status of the process (\<^verbatim>\<open>check\<close> is not set, so any
  status is returned, not raised), or raises \<open>TimeoutExpired\<close> when the process did not
  end within \<open>t\<close> seconds, or \<open>OSError\<close> when it could not be started. The driver
  functions return \<open>None\<close> when the driver accepts the call and the exception otherwise.
  \<^verbatim>\<open>asyncio.get_running_loop\<close> raises \<^verbatim>\<open>RuntimeError\<close> when no loop runs in the calling
  thread.
\<close>

definition get_running_loop :: "world \<Rightarrow> event list \<Rightarrow> error + event_loop" where
  "get_running_loop w h =
     (case running_loop w h of
        None \<Rightarrow> Inl (Raised (RuntimeError ''no running event loop''))
      | Some lp \<Rightarrow> Inr lp)"

subsection \<open>The functions of the module\<close>

text \<open>
  A parameter with a default value is an \<open>option\<close>: \<open>None\<close> when the caller leaves it
  out. A pin name is a Python \<^verbatim>\<open>str\<close> of header names such as \<^verbatim>\<open>P8_7\<close>, one character per
  code point.
\<close>

definition configure_pin ::
  "world \<Rightarrow> event list \<Rightarrow> string \<Rightarrow> pyval option \<Rightarrow> (error + unit) \<times> event list" where
  "configure_pin w h pin mode =
     (let mode' = (case mode of None \<Rightarrow> PStr GPIO_STR | Some m \<Rightarrow> m);
          pin' = (if length pin = 4 then take 3 pin @ ''0'' @ [pin ! 3] else pin);
          args = [PStr (CONFIG_PIN w), PStr pin', mode']
      in (case subprocess_run w h args 1 of
            Inl e \<Rightarrow> (Inl (Raised e), h @ [SubprocessRun args 1])
          | Inr returncode \<Rightarrow> (Inr (), h @ [SubprocessRun args 1])))"

definition setup_output :: "world \<Rightarrow> event list \<Rightarrow> string \<Rightarrow> (error + unit) \<times> event list" where
  "setup_output w h pin =
     (case gpio_setup w h pin OUT PUD_DOWN of
        Some e \<Rightarrow> (Inl (Raised e), h @ [GpioSetup pin OUT PUD_DOWN])
      | None \<Rightarrow> (Inr (), h @ [GpioSetup pin OUT PUD_DOWN]))"

definition setup_input ::
  "world \<Rightarrow> event list \<Rightarrow> string \<Rightarrow> string option \<Rightarrow> (error + unit) \<times> event list" where
  "setup_input w h pin pull_mode =
     (let pull_mode' = (case pull_mode of None \<Rightarrow> ''UP'' | Some p \<Rightarrow> p);
          bias = (if pull_mode' = ''DOWN'' then PUD_DOWN else PUD_UP)
      in (case gpio_setup w h pin IN bias of
            None \<Rightarrow> (Inr (), h @ [GpioSetup pin IN bias])
          | Some (ValueError m) \<Rightarrow>
              (Inl (GPIOInputException (ValueError m)), h @ [GpioSetup pin IN bias])
          | Some (SystemError m) \<Rightarrow>
              (Inl (GPIOInputException (SystemError m)), h @ [GpioSetup pin IN bias])
          | Some e \<Rightarrow> (Inl (Raised e), h @ [GpioSetup pin IN bias])))"

definition write_output ::
  "world \<Rightarrow> event list \<Rightarrow> string \<Rightarrow> pyval \<Rightarrow> (error + unit) \<times> event list" where
  "write_output w h pin val =
     (case gpio_output w h pin val of
        Some e \<Rightarrow> (Inl (Raised e), h @ [GpioOutput pin val])
      | None \<Rightarrow> (Inr (), h @ [GpioOutput pin val]))"

definition read_input ::
  "world \<Rightarrow> event list \<Rightarrow> string \<Rightarrow> Gpio_States option \<Rightarrow> (error + bool) \<times> event list" where
  "read_input w h pin on_state =
     (let on_state' = (case on_state of None \<Rightarrow> LOW | Some s \<Rightarrow> s)
      in (case gpio_input w h pin of
            Inl e \<Rightarrow> (Inl (Raised e), h @ [GpioInput pin])
          | Inr level \<Rightarrow> (Inr (level = on_state'), h @ [GpioInput pin])))"

definition edge_detect ::
  "world \<Rightarrow> event list \<Rightarrow> string \<Rightarrow> callable \<Rightarrow> int option \<Rightarrow> Gpio_Edges option
     \<Rightarrow> (error + unit) \<times> event list" where
  "edge_detect w h pin callback bounce edge =
     (let bounce' = (case bounce of None \<Rightarrow> 0 | Some b \<Rightarrow> b);
          edge' = (case edge of None \<Rightarrow> FALLING | Some e \<Rightarrow> e)
      in (case gpio_add_event_detect w h pin edge' callback bounce' of
            None \<Rightarrow> (Inr (), h @ [AddEventDetect pin edge' callback bounce'])
          | Some (RuntimeError m) \<Rightarrow>
              (Inl (GPIOInputException (RuntimeError m)),
               h @ [AddEventDetect pin edge' callback bounce'])
          | Some e \<Rightarrow> (Inl (Raised e), h @ [AddEventDetect pin edge' callback bounce'])))"

subsection \<open>The class GpioBaseClass\<close>

record GpioBaseClass =
  self_pin :: string
  self_bounce_time :: pyval
  self_loop :: event_loop
  self_press_callback :: callable

text \<open>
  \<^verbatim>\<open>__init__\<close>: \<open>kwargs\<close> maps a keyword to the dictionary passed under it. An exception
  leaves the constructor at once, and then no object exists: the result is \<open>Inl\<close>.
\<close>

definition GpioBaseClass_init ::
  "world \<Rightarrow> event list \<Rightarrow> string \<Rightarrow> callable \<Rightarrow> (string \<rightharpoonup> (string \<rightharpoonup> pyval))
     \<Rightarrow> (error + GpioBaseClass) \<times> event list" where
  "GpioBaseClass_init w h pin press_callback kwargs =
     (let gpio = (case kwargs ''rest_pin'' of
                    None \<Rightarrow> [GPIO_MODE \<mapsto> PStr GPIO_STR]
                  | Some d \<Rightarrow> d);
          bounce_time = (case gpio ''bounce_time'' of None \<Rightarrow> PInt 25 | Some b \<Rightarrow> b);
          mode = (case gpio GPIO_MODE of None \<Rightarrow> PStr GPIO_STR | Some m \<Rightarrow> m)
      in (case configure_pin w h pin (Some mode) of
            (Inl e, h1) \<Rightarrow> (Inl e, h1)
          | (Inr _, h1) \<Rightarrow>
              (case get_running_loop w h1 of
                 Inl e \<Rightarrow> (Inl e, h1)
               | Inr lp \<Rightarrow>
                   (case setup_input w h1 pin None of
                      (Inl e, h2) \<Rightarrow> (Inl e, h2)
                    | (Inr _, h2) \<Rightarrow>
                        (Inr \<lparr>self_pin = pin, self_bounce_time = bounce_time,
                              self_loop = lp, self_press_callback = press_callback\<rparr>,
                         h2)))))"

definition is_pressed ::
  "world \<Rightarrow> event list \<Rightarrow> GpioBaseClass \<Rightarrow> (error + bool) \<times> event list" where
  "is_pressed w h self = read_input w h (self_pin self) None"

subsection \<open>An environment to run the module in\<close>

text \<open>
  A board on which every external call succeeds: the program exits with status 0, the
  driver accepts every call, the pins read HIGH (a released button with a pull-up), and
  an event loop runs.
\<close>

definition bench :: world where
  "bench = \<lparr>CONFIG_PIN = ''/usr/bin/config-pin'',
            subprocess_run = (\<lambda>h args t. Inr 0),
            gpio_setup = (\<lambda>h pin d b. None),
            gpio_output = (\<lambda>h pin v. None),
            gpio_input = (\<lambda>h pin. Inr HIGH),
            gpio_add_event_detect = (\<lambda>h pin e c b. None),
            running_loop = (\<lambda>h. Some (EventLoop 0))\<rparr>"

text \<open>Variations of it, one external collaborator misbehaving in each.\<close>

definition exit_status_1 :: world where
  "exit_status_1 = bench\<lparr>subprocess_run := (\<lambda>h args t. Inr 1)\<rparr>"

definition hung_program :: world where
  "hung_program = bench\<lparr>subprocess_run := (\<lambda>h args t. Inl (TimeoutExpired args t))\<rparr>"

definition no_loop :: world where
  "no_loop = bench\<lparr>running_loop := (\<lambda>h. None)\<rparr>"

definition unknown_pin :: world where
  "unknown_pin = bench\<lparr>gpio_setup := (\<lambda>h pin d b. Some (ValueError ''Invalid channel''))\<rparr>"

definition odd_driver :: world where
  "odd_driver =
     bench\<lparr>gpio_setup := (\<lambda>h pin d b. Some (RuntimeError ''driver busy'')),
           gpio_add_event_detect := (\<lambda>h pin e c b. Some (ValueError ''invalid edge''))\<rparr>"

definition conflicting_edge :: world where
  "conflicting_edge =
     bench\<lparr>gpio_add_event_detect :=
             (\<lambda>h pin e c b. Some (RuntimeError ''Edge detection already enabled''))\<rparr>"

definition button_down :: world where
  "button_down = bench\<lparr>gpio_input := (\<lambda>h pin. Inr LOW)\<rparr>"

section \<open>What each function does to the history\<close>

text \<open>
  Facts shared by the proofs below: the one external call each function makes, and the
  four ways the constructor can end.
\<close>

lemma configure_pin_run:
  "\<exists>args. snd (configure_pin w h pin mode) = h @ [SubprocessRun args 1]
     \<and> fst (configure_pin w h pin mode) =
         (case subprocess_run w h args 1 of Inl e \<Rightarrow> Inl (Raised e) | Inr rc \<Rightarrow> Inr ())"
  by (simp add: configure_pin_def Let_def split: sum.split)

lemma configure_pin_args:
  "\<exists>p. snd (configure_pin w h pin mode) =
         h @ [SubprocessRun [PStr (CONFIG_PIN w), PStr p,
                             (case mode of None \<Rightarrow> PStr GPIO_STR | Some m \<Rightarrow> m)] 1]"
  by (simp add: configure_pin_def Let_def split: sum.split)

lemma setup_input_trace:
  "snd (setup_input w h pin pull_mode) =
     h @ [GpioSetup pin IN (if pull_mode = Some ''DOWN'' then PUD_DOWN else PUD_UP)]"
  by (cases pull_mode; cases "gpio_setup w h pin IN PUD_UP"; cases "gpio_setup w h pin IN PUD_DOWN")
     (simp_all add: setup_input_def Let_def split: py_exception.split)

lemma setup_input_result:
  "fst (setup_input w h pin None) =
     (case gpio_setup w h pin IN PUD_UP of
        None \<Rightarrow> Inr ()
      | Some (ValueError t) \<Rightarrow> Inl (GPIOInputException (ValueError t))
      | Some (SystemError t) \<Rightarrow> Inl (GPIOInputException (SystemError t))
      | Some x \<Rightarrow> Inl (Raised x))"
proof (cases "gpio_setup w h pin IN PUD_UP")
  case None
  then show ?thesis by (simp add: setup_input_def)
next
  case (Some x)
  then show ?thesis by (cases x) (simp_all add: setup_input_def)
qed

lemma edge_detect_trace:
  "snd (edge_detect w h pin callback bounce edge) =
     h @ [AddEventDetect pin (case edge of None \<Rightarrow> FALLING | Some e \<Rightarrow> e) callback
            (case bounce of None \<Rightarrow> 0 | Some b \<Rightarrow> b)]"
proof -
  define e where "e = (case edge of None \<Rightarrow> FALLING | Some v \<Rightarrow> v)"
  define b where "b = (case bounce of None \<Rightarrow> 0 | Some v \<Rightarrow> v)"
  have "edge_detect w h pin callback bounce edge =
     (case gpio_add_event_detect w h pin e callback b of
        None \<Rightarrow> (Inr (), h @ [AddEventDetect pin e callback b])
      | Some (RuntimeError t) \<Rightarrow>
          (Inl (GPIOInputException (RuntimeError t)), h @ [AddEventDetect pin e callback b])
      | Some x \<Rightarrow> (Inl (Raised x), h @ [AddEventDetect pin e callback b]))"
    unfolding edge_detect_def Let_def b_def e_def ..
  then have "snd (edge_detect w h pin callback bounce edge) = h @ [AddEventDetect pin e callback b]"
    by (simp split: option.split py_exception.split)
  then show ?thesis
    unfolding e_def b_def .
qed

lemma init_cases:
  assumes d: "d = (case kwargs ''rest_pin'' of
                    None \<Rightarrow> [GPIO_MODE \<mapsto> PStr GPIO_STR] | Some g \<Rightarrow> g)"
    and m: "m = (case d GPIO_MODE of None \<Rightarrow> PStr GPIO_STR | Some v \<Rightarrow> v)"
    and b: "b = (case d ''bounce_time'' of None \<Rightarrow> PInt 25 | Some v \<Rightarrow> v)"
    and c: "c = configure_pin w h pin (Some m)"
    and s: "s = setup_input w (snd c) pin None"
    and r: "r = GpioBaseClass_init w h pin cb kwargs"
  obtains
    (configure_failed) e where "fst c = Inl e" and "r = (Inl e, snd c)"
  | (no_loop) e where "fst c = Inr ()" and "get_running_loop w (snd c) = Inl e"
      and "r = (Inl e, snd c)"
  | (setup_failed) lp e where "fst c = Inr ()" and "get_running_loop w (snd c) = Inr lp"
      and "fst s = Inl e" and "r = (Inl e, snd s)"
  | (constructed) lp where "fst c = Inr ()" and "get_running_loop w (snd c) = Inr lp"
      and "fst s = Inr ()"
      and "r = (Inr \<lparr>self_pin = pin, self_bounce_time = b, self_loop = lp,
                      self_press_callback = cb\<rparr>, snd s)"
proof -
  have unfold: "r = (case c of
            (Inl e, h1) \<Rightarrow> (Inl e, h1)
          | (Inr _, h1) \<Rightarrow>
              (case get_running_loop w h1 of
                 Inl e \<Rightarrow> (Inl e, h1)
               | Inr lp \<Rightarrow>
                   (case setup_input w h1 pin None of
                      (Inl e, h2) \<Rightarrow> (Inl e, h2)
                    | (Inr _, h2) \<Rightarrow>
                        (Inr \<lparr>self_pin = pin, self_bounce_time = b,
                              self_loop = lp, self_press_callback = cb\<rparr>,
                         h2))))"
    unfolding r c b m d GpioBaseClass_init_def Let_def ..
  obtain rc h1 where c': "c = (rc, h1)" by (cases c)
  obtain rs h2 where s': "s = (rs, h2)" by (cases s)
  have s'': "setup_input w h1 pin None = (rs, h2)"
    using s s' c' by simp
  show thesis
  proof (cases rc)
    case (Inl e)
    then show thesis using configure_failed [of e] unfold c' by simp
  next
    case rc: (Inr u)
    show thesis
    proof (cases "get_running_loop w h1")
      case (Inl e)
      then show thesis using no_loop [of e] unfold c' rc by simp
    next
      case lp: (Inr lp)
      show thesis
      proof (cases rs)
        case (Inl e)
        then show thesis using setup_failed [of lp e] unfold c' rc lp s' s'' by simp
      next
        case (Inr u')
        then show thesis using constructed [of lp] unfold c' rc lp s' s'' by simp
      qed
    qed
  qed
qed

lemma init_constructed:
  assumes "GpioBaseClass_init w h pin cb kwargs = (Inr u, h1)"
  shows "u = \<lparr>self_pin = pin,
              self_bounce_time =
                (case (case kwargs ''rest_pin'' of
                         None \<Rightarrow> [GPIO_MODE \<mapsto> PStr GPIO_STR] | Some g \<Rightarrow> g) ''bounce_time'' of
                   None \<Rightarrow> PInt 25 | Some v \<Rightarrow> v),
              self_loop = self_loop u, self_press_callback = cb\<rparr>"
proof -
  define d where "d = (case kwargs ''rest_pin'' of
              None \<Rightarrow> [GPIO_MODE \<mapsto> PStr GPIO_STR] | Some g \<Rightarrow> g)"
  define m where "m = (case d GPIO_MODE of None \<Rightarrow> PStr GPIO_STR | Some v \<Rightarrow> v)"
  define b where "b = (case d ''bounce_time'' of None \<Rightarrow> PInt 25 | Some v \<Rightarrow> v)"
  define c where "c = configure_pin w h pin (Some m)"
  define s where "s = setup_input w (snd c) pin None"
  define r where "r = GpioBaseClass_init w h pin cb kwargs"
  note defs = d_def m_def b_def c_def s_def r_def
  have r: "r = (Inr u, h1)"
    using assms by (simp add: r_def)
  have "u = \<lparr>self_pin = pin, self_bounce_time = b, self_loop = self_loop u,
              self_press_callback = cb\<rparr>"
    using r by (cases rule: init_cases [OF defs]) auto
  then show ?thesis
    unfolding b_def d_def .
qed

section \<open>Pin configuration\<close>

text \<open>
  C1. The pin name handed to the external program is the name given, except that a
  name of length 4 gets the character 0 inserted at offset 3, before its last character:
  its first three characters and its last one are kept. A name of any other length is
  handed over as it is.
\<close>

theorem configure_pin_normalizes:
  "\<exists>p. snd (configure_pin w h pin mode) =
          h @ [SubprocessRun [PStr (CONFIG_PIN w), PStr p,
                              (case mode of None \<Rightarrow> PStr GPIO_STR | Some m \<Rightarrow> m)] 1]
     \<and> (length pin = 4 \<longrightarrow>
          p = take 3 pin @ ''0'' @ drop 3 pin \<and> length p = 5 \<and> take 3 p = take 3 pin
          \<and> p ! 3 = CHR ''0'' \<and> last p = last pin)
     \<and> (length pin \<noteq> 4 \<longrightarrow> p = pin)"
proof (cases "length pin = 4")
  case True
  then obtain a b c d where pin: "pin = [a, b, c, d]"
    by (auto simp: length_Suc_conv numeral_eq_Suc)
  show ?thesis
    by (simp add: pin configure_pin_def Let_def split: sum.split)
next
  case False
  then show ?thesis
    by (simp add: configure_pin_def Let_def split: sum.split)
qed

theorem configure_pin_normalizes_witness:
  "snd (configure_pin bench [] ''P8_7'' None) =
     [SubprocessRun [PStr ''/usr/bin/config-pin'', PStr ''P8_07'', PStr ''GPIO''] 1]
   \<and> snd (configure_pin bench [] ''P9_12'' None) =
     [SubprocessRun [PStr ''/usr/bin/config-pin'', PStr ''P9_12'', PStr ''GPIO''] 1]"
  using configure_pin_normalizes [of bench "[]" "''P8_7''" None]
    configure_pin_normalizes [of bench "[]" "''P9_12''" None]
  by (simp add: bench_def GPIO_STR_def)

text \<open>
  C2, as stated, fails: where the program ends with exit status 1, \<open>configure_pin\<close>
  returns normally and reports nothing to its caller.
\<close>

theorem configure_pin_exit_status_counterexample:
  "subprocess_run exit_status_1 []
     [PStr ''/usr/bin/config-pin'', PStr ''P8_07'', PStr ''GPIO''] 1 = Inr 1
   \<and> configure_pin exit_status_1 [] ''P8_7'' None =
       (Inr (), [SubprocessRun [PStr ''/usr/bin/config-pin'', PStr ''P8_07'', PStr ''GPIO''] 1])
   \<and> \<not> isl (fst (configure_pin exit_status_1 [] ''P8_7'' None))"
  by (simp add: configure_pin_def exit_status_1_def bench_def GPIO_STR_def)

text \<open>
  C2, amended. \<open>configure_pin\<close> runs the external program once, with a timeout of 1
  second. An exception of that run (the timeout, or a program that cannot be started)
  reaches the caller as it is, not wrapped in an error type of the module; any exit
  status, zero or not, makes \<open>configure_pin\<close> return normally. In the constructor the
  external run is the first call, and when it raises, the constructor fails with that
  exception and the history ends there: no GPIO setup is attempted.
\<close>

theorem configure_pin_failures:
  "(\<exists>args. snd (configure_pin w h pin mode) = h @ [SubprocessRun args 1]
      \<and> (\<forall>e. subprocess_run w h args 1 = Inl e \<longrightarrow>
               fst (configure_pin w h pin mode) = Inl (Raised e))
      \<and> (\<forall>rc. subprocess_run w h args 1 = Inr rc \<longrightarrow>
               fst (configure_pin w h pin mode) = Inr ()))
   \<and> (\<exists>args. take (Suc (length h)) (snd (GpioBaseClass_init w h pin cb kwargs)) =
               h @ [SubprocessRun args 1]
      \<and> (\<forall>e. subprocess_run w h args 1 = Inl e \<longrightarrow>
               GpioBaseClass_init w h pin cb kwargs =
                 (Inl (Raised e), h @ [SubprocessRun args 1])))"
proof
  show "\<exists>args. snd (configure_pin w h pin mode) = h @ [SubprocessRun args 1]
      \<and> (\<forall>e. subprocess_run w h args 1 = Inl e \<longrightarrow>
               fst (configure_pin w h pin mode) = Inl (Raised e))
      \<and> (\<forall>rc. subprocess_run w h args 1 = Inr rc \<longrightarrow>
               fst (configure_pin w h pin mode) = Inr ())"
    using configure_pin_run [of w h pin mode] by auto
next
  define d where "d = (case kwargs ''rest_pin'' of
              None \<Rightarrow> [GPIO_MODE \<mapsto> PStr GPIO_STR] | Some g \<Rightarrow> g)"
  define m where "m = (case d GPIO_MODE of None \<Rightarrow> PStr GPIO_STR | Some v \<Rightarrow> v)"
  define b where "b = (case d ''bounce_time'' of None \<Rightarrow> PInt 25 | Some v \<Rightarrow> v)"
  define c where "c = configure_pin w h pin (Some m)"
  define s where "s = setup_input w (snd c) pin None"
  define r where "r = GpioBaseClass_init w h pin cb kwargs"
  note defs = d_def m_def b_def c_def s_def r_def
  obtain args where args: "snd c = h @ [SubprocessRun args 1]"
    and res: "fst c = (case subprocess_run w h args 1 of
                         Inl e \<Rightarrow> Inl (Raised e) | Inr rc \<Rightarrow> Inr ())"
    using configure_pin_run [of w h pin "Some m"] by (auto simp: c_def)
  have s_trace: "snd s = h @ [SubprocessRun args 1, GpioSetup pin IN PUD_UP]"
    by (simp add: s_def setup_input_trace args)
  have "take (Suc (length h)) (snd r) = h @ [SubprocessRun args 1]
      \<and> (\<forall>e. subprocess_run w h args 1 = Inl e \<longrightarrow>
               r = (Inl (Raised e), h @ [SubprocessRun args 1]))"
    using args res s_trace by (cases rule: init_cases [OF defs]) auto
  then show "\<exists>args. take (Suc (length h)) (snd (GpioBaseClass_init w h pin cb kwargs)) =
               h @ [SubprocessRun args 1]
      \<and> (\<forall>e. subprocess_run w h args 1 = Inl e \<longrightarrow>
               GpioBaseClass_init w h pin cb kwargs =
                 (Inl (Raised e), h @ [SubprocessRun args 1]))"
    unfolding r_def by blast
qed

theorem configure_pin_failures_witness:
  "configure_pin hung_program [] ''P8_7'' None =
     (Inl (Raised (TimeoutExpired
        [PStr ''/usr/bin/config-pin'', PStr ''P8_07'', PStr ''GPIO''] 1)),
      [SubprocessRun [PStr ''/usr/bin/config-pin'', PStr ''P8_07'', PStr ''GPIO''] 1])
   \<and> GpioBaseClass_init hung_program [] ''P8_7'' (Callable 0) Map.empty =
     (Inl (Raised (TimeoutExpired
        [PStr ''/usr/bin/config-pin'', PStr ''P8_07'', PStr ''GPIO''] 1)),
      [SubprocessRun [PStr ''/usr/bin/config-pin'', PStr ''P8_07'', PStr ''GPIO''] 1])"
  using configure_pin_failures [of hung_program "[]" "''P8_7''" None "Callable 0" Map.empty]
  by (simp add: Let_def GpioBaseClass_init_def configure_pin_def hung_program_def bench_def
      GPIO_STR_def GPIO_MODE_def)

section \<open>Reading an input\<close>

text \<open>
  C3. When the driver returns a level for the pin, \<open>read_input\<close> returns whether that
  level is the active level it was given: with active level LOW, a raw HIGH gives False
  and a raw LOW gives True; with active level HIGH, the other way round.
\<close>

theorem read_input_active_level:
  "gpio_input w h pin = Inr level \<Longrightarrow>
     read_input w h pin (Some active_level) = (Inr (level = active_level), h @ [GpioInput pin])
     \<and> (fst (read_input w h pin (Some LOW)) = Inr True \<longleftrightarrow> level = LOW)
     \<and> (fst (read_input w h pin (Some LOW)) = Inr False \<longleftrightarrow> level = HIGH)
     \<and> (fst (read_input w h pin (Some HIGH)) = Inr True \<longleftrightarrow> level = HIGH)
     \<and> (fst (read_input w h pin (Some HIGH)) = Inr False \<longleftrightarrow> level = LOW)"
  by (cases level) (simp_all add: read_input_def)

theorem read_input_active_level_witness:
  "gpio_input bench [] ''P8_7'' = Inr HIGH
   \<and> fst (read_input bench [] ''P8_7'' (Some LOW)) = Inr False
   \<and> fst (read_input bench [] ''P8_7'' (Some HIGH)) = Inr True
   \<and> gpio_input button_down [] ''P8_7'' = Inr LOW
   \<and> fst (read_input button_down [] ''P8_7'' (Some LOW)) = Inr True
   \<and> fst (read_input button_down [] ''P8_7'' (Some HIGH)) = Inr False"
proof -
  have up: "gpio_input bench [] ''P8_7'' = Inr HIGH"
    by (simp add: bench_def)
  have down: "gpio_input button_down [] ''P8_7'' = Inr LOW"
    by (simp add: button_down_def bench_def)
  show ?thesis
    using up down read_input_active_level [OF up, of LOW]
      read_input_active_level [OF down, of LOW]
    by simp
qed

section \<open>Setting up an input\<close>

text \<open>
  C5, as stated, fails: the \<^verbatim>\<open>except\<close> clause of \<open>setup_input\<close> names \<^verbatim>\<open>ValueError\<close> and
  \<^verbatim>\<open>SystemError\<close> only. Where the driver fails with another exception, here a
  \<^verbatim>\<open>RuntimeError\<close>, that exception leaves \<open>setup_input\<close> as it is, and no
  \<open>GPIOInputException\<close> is raised.
\<close>

theorem setup_input_unwrapped_counterexample:
  "gpio_setup odd_driver [] ''P8_7'' IN PUD_UP = Some (RuntimeError ''driver busy'')
   \<and> setup_input odd_driver [] ''P8_7'' (Some ''UP'') =
       (Inl (Raised (RuntimeError ''driver busy'')), [GpioSetup ''P8_7'' IN PUD_UP])
   \<and> fst (setup_input odd_driver [] ''P8_7'' (Some ''UP'')) \<noteq>
       Inl (GPIOInputException (RuntimeError ''driver busy''))"
  by (simp add: setup_input_def odd_driver_def bench_def)

text \<open>
  C5, amended. \<open>setup_input\<close> asks the driver once to make the pin an input, with
  pull-down for the pull mode DOWN and pull-up otherwise. It returns normally exactly
  when the driver accepts the call. It raises \<open>GPIOInputException\<close> wrapping the cause
  exactly when the driver raises a \<^verbatim>\<open>ValueError\<close> or a \<^verbatim>\<open>SystemError\<close>; any other
  exception of the driver reaches the caller unwrapped. No failure of the driver is
  ignored.
\<close>

theorem setup_input_errors:
  "let bias = (if pull_mode = Some ''DOWN'' then PUD_DOWN else PUD_UP);
       r = setup_input w h pin pull_mode
   in snd r = h @ [GpioSetup pin IN bias]
    \<and> (fst r = Inr () \<longleftrightarrow> gpio_setup w h pin IN bias = None)
    \<and> (\<forall>c. fst r = Inl (GPIOInputException c) \<longleftrightarrow>
             gpio_setup w h pin IN bias = Some c \<and> (\<exists>t. c = ValueError t \<or> c = SystemError t))
    \<and> (\<forall>c. fst r = Inl (Raised c) \<longleftrightarrow>
             gpio_setup w h pin IN bias = Some c \<and> \<not> (\<exists>t. c = ValueError t \<or> c = SystemError t))"
proof -
  define bias where "bias = (if pull_mode = Some ''DOWN'' then PUD_DOWN else PUD_UP)"
  have bias: "(if (case pull_mode of None \<Rightarrow> ''UP'' | Some p \<Rightarrow> p) = ''DOWN''
               then PUD_DOWN else PUD_UP) = bias"
    by (cases pull_mode) (simp_all add: bias_def)
  have r: "setup_input w h pin pull_mode =
     (case gpio_setup w h pin IN bias of
        None \<Rightarrow> (Inr (), h @ [GpioSetup pin IN bias])
      | Some (ValueError t) \<Rightarrow>
          (Inl (GPIOInputException (ValueError t)), h @ [GpioSetup pin IN bias])
      | Some (SystemError t) \<Rightarrow>
          (Inl (GPIOInputException (SystemError t)), h @ [GpioSetup pin IN bias])
      | Some e \<Rightarrow> (Inl (Raised e), h @ [GpioSetup pin IN bias]))"
    unfolding setup_input_def Let_def bias ..
  have "snd (setup_input w h pin pull_mode) = h @ [GpioSetup pin IN bias]
    \<and> (fst (setup_input w h pin pull_mode) = Inr () \<longleftrightarrow> gpio_setup w h pin IN bias = None)
    \<and> (\<forall>c. fst (setup_input w h pin pull_mode) = Inl (GPIOInputException c) \<longleftrightarrow>
             gpio_setup w h pin IN bias = Some c \<and> (\<exists>t. c = ValueError t \<or> c = SystemError t))
    \<and> (\<forall>c. fst (setup_input w h pin pull_mode) = Inl (Raised c) \<longleftrightarrow>
             gpio_setup w h pin IN bias = Some c \<and> \<not> (\<exists>t. c = ValueError t \<or> c = SystemError t))"
  proof (cases "gpio_setup w h pin IN bias")
    case None
    then show ?thesis by (simp add: r)
  next
    case (Some e)
    then show ?thesis by (cases e) (auto simp: r)
  qed
  then show ?thesis
    unfolding Let_def bias_def .
qed

theorem setup_input_errors_witness:
  "setup_input unknown_pin [] ''P8_7'' (Some ''DOWN'') =
     (Inl (GPIOInputException (ValueError ''Invalid channel'')), [GpioSetup ''P8_7'' IN PUD_DOWN])
   \<and> setup_input bench [] ''P8_7'' None = (Inr (), [GpioSetup ''P8_7'' IN PUD_UP])"
  using setup_input_errors [of "Some ''DOWN''" unknown_pin "[]" "''P8_7''"]
    setup_input_errors [of None bench "[]" "''P8_7''"]
  by (simp add: Let_def setup_input_def unknown_pin_def bench_def)

text \<open>
  C9. Every pull mode other than the exact string DOWN is treated as UP: the pin is
  set up with the pull-up bias. The pull-down bias is chosen for DOWN and for nothing
  else. No pull mode is rejected: when the driver accepts the call, \<open>setup_input\<close>
  returns normally, whatever the string.
\<close>

theorem setup_input_pull_mode:
  "(pull_mode \<noteq> ''DOWN'' \<longrightarrow>
      setup_input w h pin (Some pull_mode) = setup_input w h pin (Some ''UP'')
      \<and> snd (setup_input w h pin (Some pull_mode)) = h @ [GpioSetup pin IN PUD_UP])
   \<and> (snd (setup_input w h pin (Some pull_mode)) = h @ [GpioSetup pin IN PUD_DOWN]
        \<longleftrightarrow> pull_mode = ''DOWN'')
   \<and> (gpio_setup w h pin IN (if pull_mode = ''DOWN'' then PUD_DOWN else PUD_UP) = None \<longrightarrow>
        fst (setup_input w h pin (Some pull_mode)) = Inr ())"
proof -
  have same: "pull_mode \<noteq> ''DOWN'' \<Longrightarrow>
      setup_input w h pin (Some pull_mode) = setup_input w h pin (Some ''UP'')"
    by (simp add: setup_input_def)
  have ok: "gpio_setup w h pin IN (if pull_mode = ''DOWN'' then PUD_DOWN else PUD_UP) = None \<Longrightarrow>
        fst (setup_input w h pin (Some pull_mode)) = Inr ()"
    by (simp add: setup_input_def)
  show ?thesis
    using same ok by (simp add: setup_input_trace)
qed

theorem setup_input_pull_mode_witness:
  "''down'' \<noteq> ''DOWN''
   \<and> setup_input bench [] ''P8_7'' (Some ''down'') = (Inr (), [GpioSetup ''P8_7'' IN PUD_UP])
   \<and> setup_input bench [] ''P8_7'' (Some ''sideways'') = (Inr (), [GpioSetup ''P8_7'' IN PUD_UP])
   \<and> setup_input bench [] ''P8_7'' (Some ''DOWN'') = (Inr (), [GpioSetup ''P8_7'' IN PUD_DOWN])"
  using setup_input_pull_mode [of "''down''" bench "[]" "''P8_7''"]
    setup_input_pull_mode [of "''sideways''" bench "[]" "''P8_7''"]
    setup_input_pull_mode [of "''DOWN''" bench "[]" "''P8_7''"]
  by (simp add: setup_input_def bench_def)

section \<open>Edge detection\<close>

text \<open>
  C6, as stated, fails: the \<^verbatim>\<open>except\<close> clause of \<open>edge_detect\<close> names \<^verbatim>\<open>RuntimeError\<close>
  only. Where the driver rejects the edge kind with a \<^verbatim>\<open>ValueError\<close>, that exception
  leaves \<open>edge_detect\<close> as it is, and no \<open>GPIOInputException\<close> is raised.
\<close>

theorem edge_detect_unwrapped_counterexample:
  "gpio_add_event_detect odd_driver [] ''P8_7'' RISING (Callable 3) 25 =
     Some (ValueError ''invalid edge'')
   \<and> edge_detect odd_driver [] ''P8_7'' (Callable 3) (Some 25) (Some RISING) =
       (Inl (Raised (ValueError ''invalid edge'')),
        [AddEventDetect ''P8_7'' RISING (Callable 3) 25])
   \<and> fst (edge_detect odd_driver [] ''P8_7'' (Callable 3) (Some 25) (Some RISING)) \<noteq>
       Inl (GPIOInputException (ValueError ''invalid edge''))"
  by (simp add: edge_detect_def odd_driver_def bench_def)

text \<open>
  C6, amended. \<open>edge_detect\<close> registers once with the driver, handing over the pin, the
  edge (FALLING when none is given), the callback and the bounce time (0 when none is
  given). It returns normally exactly when the driver accepts the registration. It
  raises \<open>GPIOInputException\<close> wrapping the cause exactly when the driver raises a
  \<^verbatim>\<open>RuntimeError\<close>; any other exception of the driver reaches the caller unwrapped. No
  failure of the driver is swallowed.
\<close>

theorem edge_detect_errors:
  "let b = (case bounce of None \<Rightarrow> 0 | Some v \<Rightarrow> v);
       e = (case edge of None \<Rightarrow> FALLING | Some v \<Rightarrow> v);
       r = edge_detect w h pin callback bounce edge
   in snd r = h @ [AddEventDetect pin e callback b]
    \<and> (fst r = Inr () \<longleftrightarrow> gpio_add_event_detect w h pin e callback b = None)
    \<and> (\<forall>c. fst r = Inl (GPIOInputException c) \<longleftrightarrow>
             gpio_add_event_detect w h pin e callback b = Some c \<and> (\<exists>t. c = RuntimeError t))
    \<and> (\<forall>c. fst r = Inl (Raised c) \<longleftrightarrow>
             gpio_add_event_detect w h pin e callback b = Some c \<and> \<not> (\<exists>t. c = RuntimeError t))"
proof -
  define b where "b = (case bounce of None \<Rightarrow> 0 | Some v \<Rightarrow> v)"
  define e where "e = (case edge of None \<Rightarrow> FALLING | Some v \<Rightarrow> v)"
  have r: "edge_detect w h pin callback bounce edge =
     (case gpio_add_event_detect w h pin e callback b of
        None \<Rightarrow> (Inr (), h @ [AddEventDetect pin e callback b])
      | Some (RuntimeError t) \<Rightarrow>
          (Inl (GPIOInputException (RuntimeError t)), h @ [AddEventDetect pin e callback b])
      | Some x \<Rightarrow> (Inl (Raised x), h @ [AddEventDetect pin e callback b]))"
    unfolding edge_detect_def Let_def b_def e_def ..
  have "snd (edge_detect w h pin callback bounce edge) = h @ [AddEventDetect pin e callback b]
    \<and> (fst (edge_detect w h pin callback bounce edge) = Inr ()
         \<longleftrightarrow> gpio_add_event_detect w h pin e callback b = None)
    \<and> (\<forall>c. fst (edge_detect w h pin callback bounce edge) = Inl (GPIOInputException c) \<longleftrightarrow>
             gpio_add_event_detect w h pin e callback b = Some c \<and> (\<exists>t. c = RuntimeError t))
    \<and> (\<forall>c. fst (edge_detect w h pin callback bounce edge) = Inl (Raised c) \<longleftrightarrow>
             gpio_add_event_detect w h pin e callback b = Some c \<and> \<not> (\<exists>t. c = RuntimeError t))"
  proof (cases "gpio_add_event_detect w h pin e callback b")
    case None
    then show ?thesis by (simp add: r)
  next
    case (Some x)
    then show ?thesis by (cases x) (auto simp: r)
  qed
  then show ?thesis
    unfolding Let_def b_def e_def .
qed

theorem edge_detect_errors_witness:
  "edge_detect conflicting_edge [] ''P8_7'' (Callable 3) (Some 25) (Some BOTH) =
     (Inl (GPIOInputException (RuntimeError ''Edge detection already enabled'')),
      [AddEventDetect ''P8_7'' BOTH (Callable 3) 25])
   \<and> edge_detect bench [] ''P8_7'' (Callable 3) (Some 25) None =
     (Inr (), [AddEventDetect ''P8_7'' FALLING (Callable 3) 25])"
  using edge_detect_errors [of "Some 25" "Some BOTH" conflicting_edge "[]" "''P8_7''" "Callable 3"]
    edge_detect_errors [of "Some 25" None bench "[]" "''P8_7''" "Callable 3"]
  by (simp add: Let_def edge_detect_def conflicting_edge_def bench_def)

section \<open>The input unit\<close>

text \<open>
  C4, as stated, fails: where the configuration program ends with exit status 1, the
  constructor does not abort. It goes on to set up the input and returns a unit.
\<close>

theorem init_exit_status_counterexample:
  "subprocess_run exit_status_1 []
     [PStr ''/usr/bin/config-pin'', PStr ''P8_07'', PStr ''GPIO''] 1 = Inr 1
   \<and> GpioBaseClass_init exit_status_1 [] ''P8_7'' (Callable 7) Map.empty =
     (Inr \<lparr>self_pin = ''P8_7'', self_bounce_time = PInt 25, self_loop = EventLoop 0,
            self_press_callback = Callable 7\<rparr>,
      [SubprocessRun [PStr ''/usr/bin/config-pin'', PStr ''P8_07'', PStr ''GPIO''] 1,
       GpioSetup ''P8_7'' IN PUD_UP])
   \<and> \<not> isl (fst (GpioBaseClass_init exit_status_1 [] ''P8_7'' (Callable 7) Map.empty))"
  by (simp add: Let_def GpioBaseClass_init_def configure_pin_def setup_input_def
      get_running_loop_def exit_status_1_def bench_def GPIO_STR_def GPIO_MODE_def)

text \<open>
  C4, amended. The constructor takes the mode and the bounce time from the
  configuration record, then calls \<open>configure_pin\<close>, then (once the running loop is
  found) \<open>setup_input\<close>, in this order, and registers no edge detection. An exception
  raised by \<open>configure_pin\<close> or by \<open>setup_input\<close> ends the constructor with that same
  exception and without a unit. For \<open>configure_pin\<close> this is the exception of the
  process runner, unwrapped, and an exit status, zero or not, is no failure; for
  \<open>setup_input\<close> it is \<open>GPIOInputException\<close> when the driver raised a \<^verbatim>\<open>ValueError\<close> or a
  \<^verbatim>\<open>SystemError\<close>, and the exception of the driver, unwrapped, otherwise. When no stage
  raises, the unit holds the pin, the bounce time, the loop and the callback.
\<close>

theorem init_stages:
  "let d = (case kwargs ''rest_pin'' of
              None \<Rightarrow> [GPIO_MODE \<mapsto> PStr GPIO_STR] | Some g \<Rightarrow> g);
       m = (case d GPIO_MODE of None \<Rightarrow> PStr GPIO_STR | Some v \<Rightarrow> v);
       b = (case d ''bounce_time'' of None \<Rightarrow> PInt 25 | Some v \<Rightarrow> v);
       c = configure_pin w h pin (Some m);
       s = setup_input w (snd c) pin None;
       r = GpioBaseClass_init w h pin cb kwargs
   in (\<forall>e. fst c = Inl e \<longrightarrow> r = (Inl e, snd c))
    \<and> (\<forall>e. fst c = Inr () \<longrightarrow> get_running_loop w (snd c) = Inl e \<longrightarrow> r = (Inl e, snd c))
    \<and> (\<forall>e lp. fst c = Inr () \<longrightarrow> get_running_loop w (snd c) = Inr lp \<longrightarrow> fst s = Inl e
          \<longrightarrow> r = (Inl e, snd s))
    \<and> (\<forall>lp. fst c = Inr () \<longrightarrow> get_running_loop w (snd c) = Inr lp \<longrightarrow> fst s = Inr ()
          \<longrightarrow> r = (Inr \<lparr>self_pin = pin, self_bounce_time = b, self_loop = lp,
                          self_press_callback = cb\<rparr>, snd s))
    \<and> (\<exists>args. snd c = h @ [SubprocessRun args 1]
          \<and> snd s = h @ [SubprocessRun args 1, GpioSetup pin IN PUD_UP]
          \<and> (snd r = snd c \<or> snd r = snd s)
          \<and> fst c = (case subprocess_run w h args 1 of
                       Inl x \<Rightarrow> Inl (Raised x) | Inr rc \<Rightarrow> Inr ()))
    \<and> fst s = (case gpio_setup w (snd c) pin IN PUD_UP of
                 None \<Rightarrow> Inr ()
               | Some (ValueError t) \<Rightarrow> Inl (GPIOInputException (ValueError t))
               | Some (SystemError t) \<Rightarrow> Inl (GPIOInputException (SystemError t))
               | Some x \<Rightarrow> Inl (Raised x))
    \<and> (\<forall>p e f t. AddEventDetect p e f t \<in> set (snd r) \<longrightarrow> AddEventDetect p e f t \<in> set h)"
proof -
  define d where "d = (case kwargs ''rest_pin'' of
              None \<Rightarrow> [GPIO_MODE \<mapsto> PStr GPIO_STR] | Some g \<Rightarrow> g)"
  define m where "m = (case d GPIO_MODE of None \<Rightarrow> PStr GPIO_STR | Some v \<Rightarrow> v)"
  define b where "b = (case d ''bounce_time'' of None \<Rightarrow> PInt 25 | Some v \<Rightarrow> v)"
  define c where "c = configure_pin w h pin (Some m)"
  define s where "s = setup_input w (snd c) pin None"
  define r where "r = GpioBaseClass_init w h pin cb kwargs"
  note defs = d_def m_def b_def c_def s_def r_def
  obtain args where args: "snd c = h @ [SubprocessRun args 1]"
    and res: "fst c = (case subprocess_run w h args 1 of
                         Inl x \<Rightarrow> Inl (Raised x) | Inr rc \<Rightarrow> Inr ())"
    using configure_pin_run [of w h pin "Some m"] by (auto simp: c_def)
  have s_trace: "snd s = h @ [SubprocessRun args 1, GpioSetup pin IN PUD_UP]"
    by (simp add: s_def setup_input_trace args)
  have s_res: "fst s = (case gpio_setup w (snd c) pin IN PUD_UP of
                 None \<Rightarrow> Inr ()
               | Some (ValueError t) \<Rightarrow> Inl (GPIOInputException (ValueError t))
               | Some (SystemError t) \<Rightarrow> Inl (GPIOInputException (SystemError t))
               | Some x \<Rightarrow> Inl (Raised x))"
    unfolding s_def by (rule setup_input_result)
  have stages: "(\<forall>e. fst c = Inl e \<longrightarrow> r = (Inl e, snd c))
    \<and> (\<forall>e. fst c = Inr () \<longrightarrow> get_running_loop w (snd c) = Inl e \<longrightarrow> r = (Inl e, snd c))
    \<and> (\<forall>e lp. fst c = Inr () \<longrightarrow> get_running_loop w (snd c) = Inr lp \<longrightarrow> fst s = Inl e
          \<longrightarrow> r = (Inl e, snd s))
    \<and> (\<forall>lp. fst c = Inr () \<longrightarrow> get_running_loop w (snd c) = Inr lp \<longrightarrow> fst s = Inr ()
          \<longrightarrow> r = (Inr \<lparr>self_pin = pin, self_bounce_time = b, self_loop = lp,
                          self_press_callback = cb\<rparr>, snd s))"
    by (cases rule: init_cases [OF defs]) auto
  have shape: "snd r = snd c \<or> snd r = snd s"
    by (cases rule: init_cases [OF defs]) auto
  have unarmed: "\<forall>p e f t. AddEventDetect p e f t \<in> set (snd r) \<longrightarrow> AddEventDetect p e f t \<in> set h"
    using shape args s_trace by auto
  have run: "\<exists>args. snd c = h @ [SubprocessRun args 1]
          \<and> snd s = h @ [SubprocessRun args 1, GpioSetup pin IN PUD_UP]
          \<and> (snd r = snd c \<or> snd r = snd s)
          \<and> fst c = (case subprocess_run w h args 1 of
                       Inl x \<Rightarrow> Inl (Raised x) | Inr rc \<Rightarrow> Inr ())"
    using args s_trace shape res by blast
  have "(\<forall>e. fst c = Inl e \<longrightarrow> r = (Inl e, snd c))
    \<and> (\<forall>e. fst c = Inr () \<longrightarrow> get_running_loop w (snd c) = Inl e \<longrightarrow> r = (Inl e, snd c))
    \<and> (\<forall>e lp. fst c = Inr () \<longrightarrow> get_running_loop w (snd c) = Inr lp \<longrightarrow> fst s = Inl e
          \<longrightarrow> r = (Inl e, snd s))
    \<and> (\<forall>lp. fst c = Inr () \<longrightarrow> get_running_loop w (snd c) = Inr lp \<longrightarrow> fst s = Inr ()
          \<longrightarrow> r = (Inr \<lparr>self_pin = pin, self_bounce_time = b, self_loop = lp,
                          self_press_callback = cb\<rparr>, snd s))
    \<and> (\<exists>args. snd c = h @ [SubprocessRun args 1]
          \<and> snd s = h @ [SubprocessRun args 1, GpioSetup pin IN PUD_UP]
          \<and> (snd r = snd c \<or> snd r = snd s)
          \<and> fst c = (case subprocess_run w h args 1 of
                       Inl x \<Rightarrow> Inl (Raised x) | Inr rc \<Rightarrow> Inr ()))
    \<and> fst s = (case gpio_setup w (snd c) pin IN PUD_UP of
                 None \<Rightarrow> Inr ()
               | Some (ValueError t) \<Rightarrow> Inl (GPIOInputException (ValueError t))
               | Some (SystemError t) \<Rightarrow> Inl (GPIOInputException (SystemError t))
               | Some x \<Rightarrow> Inl (Raised x))
    \<and> (\<forall>p e f t. AddEventDetect p e f t \<in> set (snd r) \<longrightarrow> AddEventDetect p e f t \<in> set h)"
    using stages run s_res unarmed by (intro conjI) blast+
  then show ?thesis
    unfolding Let_def defs .
qed

theorem init_stages_witness:
  "GpioBaseClass_init bench [] ''P8_7'' (Callable 7) Map.empty =
     (Inr \<lparr>self_pin = ''P8_7'', self_bounce_time = PInt 25, self_loop = EventLoop 0,
            self_press_callback = Callable 7\<rparr>,
      [SubprocessRun [PStr ''/usr/bin/config-pin'', PStr ''P8_07'', PStr ''GPIO''] 1,
       GpioSetup ''P8_7'' IN PUD_UP])
   \<and> GpioBaseClass_init hung_program [] ''P8_7'' (Callable 7) Map.empty =
     (Inl (Raised (TimeoutExpired
        [PStr ''/usr/bin/config-pin'', PStr ''P8_07'', PStr ''GPIO''] 1)),
      [SubprocessRun [PStr ''/usr/bin/config-pin'', PStr ''P8_07'', PStr ''GPIO''] 1])
   \<and> GpioBaseClass_init unknown_pin [] ''P8_7'' (Callable 7) Map.empty =
     (Inl (GPIOInputException (ValueError ''Invalid channel'')),
      [SubprocessRun [PStr ''/usr/bin/config-pin'', PStr ''P8_07'', PStr ''GPIO''] 1,
       GpioSetup ''P8_7'' IN PUD_UP])"
  using init_stages [of Map.empty bench "[]" "''P8_7''" "Callable 7"]
    init_stages [of Map.empty hung_program "[]" "''P8_7''" "Callable 7"]
    init_stages [of Map.empty unknown_pin "[]" "''P8_7''" "Callable 7"]
  by (simp add: Let_def configure_pin_def setup_input_def get_running_loop_def
      bench_def hung_program_def unknown_pin_def GPIO_STR_def GPIO_MODE_def)

text \<open>
  C7. For a unit that the constructor returned, \<open>is_pressed\<close> is \<open>read_input\<close> on the
  pin of the unit with the active level LOW, the only active level a unit has; this
  holds after any history of calls, whether or not \<open>edge_detect\<close> has been called for the
  pin.
\<close>

theorem is_pressed_reads_pin:
  "GpioBaseClass_init w h pin cb kwargs = (Inr u, h1) \<Longrightarrow>
     is_pressed w h2 u = read_input w h2 pin (Some LOW)
     \<and> is_pressed w (snd (edge_detect w h1 pin cb bounce edge)) u =
         read_input w (snd (edge_detect w h1 pin cb bounce edge)) pin (Some LOW)
     \<and> (\<forall>level. gpio_input w h2 pin = Inr level \<longrightarrow>
           is_pressed w h2 u = (Inr (level = LOW), h2 @ [GpioInput pin]))"
  using init_constructed [of w h pin cb kwargs u h1]
  by (cases u) (simp add: is_pressed_def read_input_def)

theorem is_pressed_reads_pin_witness:
  "GpioBaseClass_init button_down [] ''P8_7'' (Callable 7) Map.empty =
     (Inr \<lparr>self_pin = ''P8_7'', self_bounce_time = PInt 25, self_loop = EventLoop 0,
            self_press_callback = Callable 7\<rparr>,
      [SubprocessRun [PStr ''/usr/bin/config-pin'', PStr ''P8_07'', PStr ''GPIO''] 1,
       GpioSetup ''P8_7'' IN PUD_UP])
   \<and> fst (is_pressed button_down
        [SubprocessRun [PStr ''/usr/bin/config-pin'', PStr ''P8_07'', PStr ''GPIO''] 1,
         GpioSetup ''P8_7'' IN PUD_UP]
        \<lparr>self_pin = ''P8_7'', self_bounce_time = PInt 25, self_loop = EventLoop 0,
          self_press_callback = Callable 7\<rparr>) = Inr True"
proof -
  have init: "GpioBaseClass_init button_down [] ''P8_7'' (Callable 7) Map.empty =
     (Inr \<lparr>self_pin = ''P8_7'', self_bounce_time = PInt 25, self_loop = EventLoop 0,
            self_press_callback = Callable 7\<rparr>,
      [SubprocessRun [PStr ''/usr/bin/config-pin'', PStr ''P8_07'', PStr ''GPIO''] 1,
       GpioSetup ''P8_7'' IN PUD_UP])"
    by (simp add: Let_def GpioBaseClass_init_def configure_pin_def setup_input_def
        get_running_loop_def button_down_def bench_def GPIO_STR_def GPIO_MODE_def)
  show ?thesis
    using init is_pressed_reads_pin [OF init,
        of "[SubprocessRun [PStr ''/usr/bin/config-pin'', PStr ''P8_07'', PStr ''GPIO''] 1,
             GpioSetup ''P8_7'' IN PUD_UP]" None None]
    by (simp add: is_pressed_def read_input_def button_down_def bench_def)
qed

text \<open>
  C8, as stated, fails in its last part: \<open>edge_detect\<close> called without a bounce time
  registers with a bounce time of 0, not 25.
\<close>

theorem edge_detect_default_bounce_counterexample:
  "edge_detect bench [] ''P8_7'' (Callable 7) None None =
     (Inr (), [AddEventDetect ''P8_7'' FALLING (Callable 7) 0])
   \<and> snd (edge_detect bench [] ''P8_7'' (Callable 7) None None) \<noteq>
       [AddEventDetect ''P8_7'' FALLING (Callable 7) 25]"
  by (simp add: edge_detect_def bench_def)

text \<open>
  C8, amended. When the configuration record is absent, or present without the mode
  key, the constructor configures the pin with the default mode \<^verbatim>\<open>GPIO_STR\<close>; when the
  record is absent, or present without the key \<^verbatim>\<open>bounce_time\<close>, the unit it returns has
  the bounce time 25. \<open>edge_detect\<close> has a default of its own: without a bounce time it
  registers with 0.
\<close>

theorem default_mode_and_bounce:
  "(kwargs ''rest_pin'' = None \<or> (\<exists>g. kwargs ''rest_pin'' = Some g \<and> g GPIO_MODE = None) \<longrightarrow>
      (\<exists>p. take (Suc (length h)) (snd (GpioBaseClass_init w h pin cb kwargs)) =
             h @ [SubprocessRun [PStr (CONFIG_PIN w), PStr p, PStr GPIO_STR] 1]))
   \<and> (kwargs ''rest_pin'' = None \<or> (\<exists>g. kwargs ''rest_pin'' = Some g \<and> g ''bounce_time'' = None) \<longrightarrow>
      (\<forall>u h1. GpioBaseClass_init w h pin cb kwargs = (Inr u, h1) \<longrightarrow> self_bounce_time u = PInt 25))
   \<and> snd (edge_detect w h pin cb None edge) =
       h @ [AddEventDetect pin (case edge of None \<Rightarrow> FALLING | Some e \<Rightarrow> e) cb 0]"
proof (intro conjI impI allI)
  assume k: "kwargs ''rest_pin'' = None \<or> (\<exists>g. kwargs ''rest_pin'' = Some g \<and> g GPIO_MODE = None)"
  define d where "d = (case kwargs ''rest_pin'' of
              None \<Rightarrow> [GPIO_MODE \<mapsto> PStr GPIO_STR] | Some g \<Rightarrow> g)"
  define m where "m = (case d GPIO_MODE of None \<Rightarrow> PStr GPIO_STR | Some v \<Rightarrow> v)"
  define b where "b = (case d ''bounce_time'' of None \<Rightarrow> PInt 25 | Some v \<Rightarrow> v)"
  define c where "c = configure_pin w h pin (Some m)"
  define s where "s = setup_input w (snd c) pin None"
  define r where "r = GpioBaseClass_init w h pin cb kwargs"
  note defs = d_def m_def b_def c_def s_def r_def
  have m: "m = PStr GPIO_STR"
    using k by (auto simp: m_def d_def)
  obtain p where p: "snd c = h @ [SubprocessRun [PStr (CONFIG_PIN w), PStr p, PStr GPIO_STR] 1]"
    using configure_pin_args [of w h pin "Some m"] by (auto simp: c_def m)
  have "take (Suc (length h)) (snd r) =
          h @ [SubprocessRun [PStr (CONFIG_PIN w), PStr p, PStr GPIO_STR] 1]"
    using p by (cases rule: init_cases [OF defs]) (auto simp: s_def setup_input_trace)
  then show "\<exists>p. take (Suc (length h)) (snd (GpioBaseClass_init w h pin cb kwargs)) =
             h @ [SubprocessRun [PStr (CONFIG_PIN w), PStr p, PStr GPIO_STR] 1]"
    unfolding r_def by blast
next
  fix u h1
  assume k: "kwargs ''rest_pin'' = None \<or> (\<exists>g. kwargs ''rest_pin'' = Some g \<and> g ''bounce_time'' = None)"
    and r: "GpioBaseClass_init w h pin cb kwargs = (Inr u, h1)"
  have "self_bounce_time u =
          (case (case kwargs ''rest_pin'' of
                   None \<Rightarrow> [GPIO_MODE \<mapsto> PStr GPIO_STR] | Some g \<Rightarrow> g) ''bounce_time'' of
             None \<Rightarrow> PInt 25 | Some v \<Rightarrow> v)"
    using init_constructed [OF r] by (cases u) simp
  then show "self_bounce_time u = PInt 25"
    using k by (auto simp: GPIO_MODE_def)
next
  show "snd (edge_detect w h pin cb None edge) =
       h @ [AddEventDetect pin (case edge of None \<Rightarrow> FALLING | Some e \<Rightarrow> e) cb 0]"
    by (simp add: edge_detect_trace)
qed

theorem default_mode_and_bounce_witness:
  "GpioBaseClass_init bench [] ''P8_7'' (Callable 7) Map.empty =
     (Inr \<lparr>self_pin = ''P8_7'', self_bounce_time = PInt 25, self_loop = EventLoop 0,
            self_press_callback = Callable 7\<rparr>,
      [SubprocessRun [PStr ''/usr/bin/config-pin'', PStr ''P8_07'', PStr ''GPIO''] 1,
       GpioSetup ''P8_7'' IN PUD_UP])
   \<and> GpioBaseClass_init bench [] ''P8_7'' (Callable 7)
       [''rest_pin'' \<mapsto> [''bounce_time'' \<mapsto> PInt 40]] =
     (Inr \<lparr>self_pin = ''P8_7'', self_bounce_time = PInt 40, self_loop = EventLoop 0,
            self_press_callback = Callable 7\<rparr>,
      [SubprocessRun [PStr ''/usr/bin/config-pin'', PStr ''P8_07'', PStr ''GPIO''] 1,
       GpioSetup ''P8_7'' IN PUD_UP])
   \<and> GpioBaseClass_init bench [] ''P8_7'' (Callable 7)
       [''rest_pin'' \<mapsto> [''mode'' \<mapsto> PStr ''pwm'']] =
     (Inr \<lparr>self_pin = ''P8_7'', self_bounce_time = PInt 25, self_loop = EventLoop 0,
            self_press_callback = Callable 7\<rparr>,
      [SubprocessRun [PStr ''/usr/bin/config-pin'', PStr ''P8_07'', PStr ''pwm''] 1,
       GpioSetup ''P8_7'' IN PUD_UP])"
  using default_mode_and_bounce [where kwargs = Map.empty and w = bench and h = "[]"
      and pin = "''P8_7''" and cb = "Callable 7" and edge = None]
    default_mode_and_bounce [where kwargs = "[''rest_pin'' \<mapsto> [''bounce_time'' \<mapsto> PInt 40]]"
      and w = bench and h = "[]" and pin = "''P8_7''" and cb = "Callable 7" and edge = None]
    default_mode_and_bounce [where kwargs = "[''rest_pin'' \<mapsto> [''mode'' \<mapsto> PStr ''pwm'']]"
      and w = bench and h = "[]" and pin = "''P8_7''" and cb = "Callable 7" and edge = None]
  by (simp add: Let_def GpioBaseClass_init_def configure_pin_def setup_input_def
      get_running_loop_def bench_def GPIO_STR_def GPIO_MODE_def)



end
